theory Spec2Isabelle
  imports Main "HOL-Library.AList"
begin

section \<open>Python values shared by the components\<close>

text \<open>
  The exceptions the modelled code can raise. Every \<open>raise\<close> of the source, and every
  failing library call, is an \<open>Inl\<close> value of the result type \<open>exn + 'a\<close>.
\<close>

datatype exn =
    AttributeError | KeyError | TypeError | ValueError
  | OSError | IOError
  | NoSectionError | NoOptionError
  | LibraryError string

text \<open>
  \<open>packet.data\<close> is dynamically typed. The source tests it against \<open>None\<close>, \<open>str\<close> and
  \<open>dict\<close> (a dictionary of strings: \<open>{name: string, file_path: string}\<close>); \<open>PInt\<close> is a
  payload that is an integer.
\<close>

datatype pdata = PStr string | PDict "(string \<times> string) list" | PInt int

record packet =
  data :: "pdata option"
  format :: string
  chain_metadata :: "(string \<times> string) list"

section \<open>safe\_filename\<close>

text \<open>
  \<^verbatim>\<open>re.sub(r'[^a-zA-Z0-9.]', '_', name)\<close>: every character outside the class is replaced
  by an underscore, one character at a time. The same static method is defined on
  ArchiveExpander and on FileExtractor. The class is given by character codes, as the
  ranges of the regular expression are.
\<close>

definition in_class :: "char \<Rightarrow> bool" where
  "in_class c =
     (let n = (of_char c :: nat) in
        (97 \<le> n \<and> n \<le> 122) \<or> (65 \<le> n \<and> n \<le> 90) \<or> (48 \<le> n \<and> n \<le> 57) \<or> n = 46)"

definition safe_filename :: "string \<Rightarrow> string" where
  "safe_filename name = map (\<lambda>c. if in_class c then c else CHR ''_'') name"

text \<open>The characters the result is said to be made of, listed one by one.\<close>

definition is_ascii_letter :: "char \<Rightarrow> bool" where
  "is_ascii_letter c =
     (c \<in> set ''abcdefghijklmnopqrstuvwxyz'' \<or> c \<in> set ''ABCDEFGHIJKLMNOPQRSTUVWXYZ'')"

definition is_ascii_digit :: "char \<Rightarrow> bool" where
  "is_ascii_digit c = (c \<in> set ''0123456789'')"

section \<open>The file system\<close>

text \<open>
  The components act on the file system through \<open>os\<close> and \<open>os.path\<close>. The file system is
  a tree: a regular file with its content, or a directory with its entries in the order
  \<open>os.listdir\<close> reports them. A path is the list of its components below the root;
  \<open>os.path.join(d, name)\<close> appends one component. Symbolic links, permissions and
  concurrent modification by other processes are outside the model.
\<close>

datatype node = File string | Dir "(string \<times> node) list"

type_synonym path = "string list"

text \<open>\<^verbatim>\<open>s.split(sep)\<close> for a separator of one character.\<close>

fun split_on :: "char \<Rightarrow> string \<Rightarrow> string list" where
  "split_on sep [] = [[]]"
| "split_on sep (c # cs) =
     (if c = sep then [] # split_on sep cs
      else (case split_on sep cs of [] \<Rightarrow> [[c]] | w # ws \<Rightarrow> (c # w) # ws))"

text \<open>
  The components of a path string: the non-empty pieces between slashes. Every path is
  read from the root of the tree, the components \<open>.\<close> and \<open>..\<close> are names like any other,
  and a string with no component is the root itself.
\<close>

definition path_of :: "string \<Rightarrow> path" where
  "path_of s = filter (\<lambda>w. w \<noteq> []) (split_on (CHR ''/'') s)"

primrec lookup :: "path \<Rightarrow> node \<Rightarrow> node option" where
  "lookup [] n = Some n"
| "lookup (x # xs) n =
     (case n of
        File c \<Rightarrow> None
      | Dir es \<Rightarrow> (case map_of es x of None \<Rightarrow> None | Some m \<Rightarrow> lookup xs m))"

text \<open>\<open>put p v n\<close>: the tree \<open>n\<close> with the node at \<open>p\<close> created or replaced by \<open>v\<close>. Nothing
  changes when the parent of \<open>p\<close> is not an existing directory.\<close>

primrec put :: "path \<Rightarrow> node \<Rightarrow> node \<Rightarrow> node" where
  "put [] v n = v"
| "put (x # xs) v n =
     (case n of
        File c \<Rightarrow> File c
      | Dir es \<Rightarrow>
          (case map_of es x of
             None \<Rightarrow> (if xs = [] then Dir (es @ [(x, v)]) else Dir es)
           | Some m \<Rightarrow> Dir (AList.update x (put xs v m) es)))"

text \<open>\<open>del p n\<close>: the tree \<open>n\<close> without the entry at \<open>p\<close>.\<close>

primrec del :: "path \<Rightarrow> node \<Rightarrow> node" where
  "del [] n = n"
| "del (x # xs) n =
     (case n of
        File c \<Rightarrow> File c
      | Dir es \<Rightarrow>
          (if xs = [] then Dir (AList.delete x es)
           else (case map_of es x of
                   None \<Rightarrow> Dir es
                 | Some m \<Rightarrow> Dir (AList.update x (del xs m) es))))"

definition isfile :: "node \<Rightarrow> path \<Rightarrow> bool" where
  "isfile fs p = (case lookup p fs of Some (File c) \<Rightarrow> True | _ \<Rightarrow> False)"

definition isdir :: "node \<Rightarrow> path \<Rightarrow> bool" where
  "isdir fs p = (case lookup p fs of Some (Dir es) \<Rightarrow> True | _ \<Rightarrow> False)"

text \<open>\<open>os.listdir\<close> raises \<open>OSError\<close> on a path that is not a directory.\<close>

definition listdir :: "node \<Rightarrow> path \<Rightarrow> exn + string list" where
  "listdir fs p = (case lookup p fs of Some (Dir es) \<Rightarrow> Inr (map fst es) | _ \<Rightarrow> Inl OSError)"

text \<open>\<open>os.remove\<close> deletes a regular file and raises \<open>OSError\<close> on anything else.\<close>

definition os_remove :: "node \<Rightarrow> path \<Rightarrow> exn + node" where
  "os_remove fs p = (if isfile fs p then Inr (del p fs) else Inl OSError)"

text \<open>\<open>os.rmdir\<close> deletes an empty directory and raises \<open>OSError\<close> on anything else.\<close>

definition os_rmdir :: "node \<Rightarrow> path \<Rightarrow> exn + node" where
  "os_rmdir fs p =
     (case lookup p fs of Some (Dir []) \<Rightarrow> Inr (del p fs) | _ \<Rightarrow> Inl OSError)"

text \<open>
  \<open>open(path, 'wb')\<close> followed by writes and close: the file is created, or truncated and
  rewritten. It raises \<open>IOError\<close> when the path is a directory or its parent is not one.
\<close>

definition parent_isdir :: "node \<Rightarrow> path \<Rightarrow> bool" where
  "parent_isdir fs p = (p \<noteq> [] \<and> isdir fs (butlast p))"

definition write_file :: "node \<Rightarrow> path \<Rightarrow> string \<Rightarrow> exn + node" where
  "write_file fs p c =
     (if isdir fs p \<or> \<not> parent_isdir fs p then Inl IOError else Inr (put p (File c) fs))"

section \<open>wipe\_dir\<close>

text \<open>
  \<^verbatim>\<open>
  def wipe_dir(self, dir_path):
      if os.path.isdir(dir_path):
          for file_object in os.listdir(dir_path):
              file_object_path = os.path.join(dir_path, file_object)
              if os.path.isdir(file_object_path):
                  self.wipe_dir(file_object_path)
                  os.rmdir(file_object_path)
                  return
              os.remove(file_object_path)
  \<close>
  \<open>wipe_loop\<close> is the \<open>for\<close> loop over the listing taken when the loop starts. Both
  functions return the exception raised, if any, with the file system as it is then.
  The recursion ends because a subdirectory is a smaller tree than the directory holding
  it, and removing an entry never makes a directory larger.
\<close>

definition subtree_size :: "node \<Rightarrow> path \<Rightarrow> nat" where
  "subtree_size fs p = (case lookup p fs of None \<Rightarrow> 0 | Some m \<Rightarrow> size m)"

lemma lookup_append:
  "lookup (d @ q) fs = (case lookup d fs of None \<Rightarrow> None | Some m \<Rightarrow> lookup q m)"
  by (induction d arbitrary: fs) (auto split: node.splits option.splits)

lemma size_map_of: "map_of es n = Some m \<Longrightarrow> size m < size (Dir es)"
  by (induction es) (auto split: if_splits)

lemma size_delete: "size (Dir (AList.delete n es)) \<le> size (Dir es)"
  by (induction es) auto

lemma lookup_del_child:
  "lookup d (del (d @ [n]) fs) =
     (case lookup d fs of Some (Dir es) \<Rightarrow> Some (Dir (AList.delete n es)) | r \<Rightarrow> r)"
  by (induction d arbitrary: fs) (auto split: node.splits option.splits simp: update_conv')

lemma subtree_size_child:
  "isdir fs (d @ [n]) \<Longrightarrow> subtree_size fs (d @ [n]) < subtree_size fs d"
  by (auto simp: isdir_def subtree_size_def lookup_append
      split: option.splits node.splits dest!: size_map_of)

lemma subtree_size_remove:
  "os_remove fs (d @ [n]) = Inr fs1 \<Longrightarrow> subtree_size fs1 d \<le> subtree_size fs d"
  using size_delete
  by (auto simp: os_remove_def subtree_size_def lookup_del_child
      split: option.splits node.splits if_splits)

function wipe_dir :: "node \<Rightarrow> path \<Rightarrow> exn option \<times> node"
  and wipe_loop :: "node \<Rightarrow> path \<Rightarrow> string list \<Rightarrow> exn option \<times> node" where
  "wipe_dir fs dir_path =
     (if isdir fs dir_path then
        (case listdir fs dir_path of
           Inl e \<Rightarrow> (Some e, fs)
         | Inr names \<Rightarrow> wipe_loop fs dir_path names)
      else (None, fs))"
| "wipe_loop fs dir_path [] = (None, fs)"
| "wipe_loop fs dir_path (file_object # rest) =
     (let file_object_path = dir_path @ [file_object] in
      if isdir fs file_object_path then
        (case wipe_dir fs file_object_path of
           (Some e, fs1) \<Rightarrow> (Some e, fs1)
         | (None, fs1) \<Rightarrow>
             (case os_rmdir fs1 file_object_path of
                Inl e \<Rightarrow> (Some e, fs1)
              | Inr fs2 \<Rightarrow> (None, fs2)))
      else
        (case os_remove fs file_object_path of
           Inl e \<Rightarrow> (Some e, fs)
         | Inr fs1 \<Rightarrow> wipe_loop fs1 dir_path rest))"
  by pat_completeness auto
termination
  apply (relation "measures
     [\<lambda>x. case x of Inl (fs, d) \<Rightarrow> subtree_size fs d | Inr (fs, d, ns) \<Rightarrow> subtree_size fs d,
      \<lambda>x. case x of Inl _ \<Rightarrow> 1 | Inr _ \<Rightarrow> 0,
      \<lambda>x. case x of Inl _ \<Rightarrow> 0 | Inr (fs, d, ns) \<Rightarrow> length ns]")
     apply simp
    apply simp
   apply (simp add: subtree_size_child)
  using subtree_size_remove apply fastforce
  done

text \<open>
  The same loop read off the listing alone: \<open>wipe_entries es\<close> is what is left of a
  directory holding \<open>es\<close>, with the exception raised if any. It is the specification
  \<open>wipe_loop\<close> is compared with.
\<close>

fun wipe_entries :: "(string \<times> node) list \<Rightarrow> exn option \<times> (string \<times> node) list" where
  "wipe_entries [] = (None, [])"
| "wipe_entries ((name, File c) # es) = wipe_entries es"
| "wipe_entries ((name, Dir sub) # es) =
     (case wipe_entries sub of
        (Some e, sub') \<Rightarrow> (Some e, (name, Dir sub') # es)
      | (None, sub') \<Rightarrow>
          (if sub' = [] then (None, es) else (Some OSError, (name, Dir sub') # es)))"

text \<open>A well-formed tree: no directory lists a name twice.\<close>

fun wf_node :: "node \<Rightarrow> bool" where
  "wf_node (File c) = True"
| "wf_node (Dir es) = (distinct (map fst es) \<and> list_all (\<lambda>e. wf_node (snd e)) es)"

definition is_regular :: "node \<Rightarrow> bool" where
  "is_regular n = (case n of File c \<Rightarrow> True | Dir es \<Rightarrow> False)"

section \<open>Library calls the components depend on\<close>

text \<open>
  What the components take from the interpreter and from \<open>zipfile\<close> and GDAL is a
  parameter of the model, so every result below holds whatever these calls compute:
  \<^item> \<open>str_mod fmt arg\<close> is the string formatting \<open>fmt % arg\<close> with a string argument,
    which raises when the format does not fit one argument;
  \<^item> \<open>zip_extractall fs archive dir\<close> is \<open>zipfile.ZipFile(archive).extractall(path=dir)\<close>;
  \<^item> \<open>zip_open fs archive\<close> is \<open>zipfile.ZipFile(archive)\<close>: the members of the archive
    with their contents;
  \<^item> \<open>vsi_content path\<close> is the content of the file GDAL's virtual file system holds
    at \<open>path\<close>, \<open>None\<close> when \<open>VSIFOpenL\<close> cannot open it.
\<close>

record pylib =
  str_mod :: "string \<Rightarrow> string \<Rightarrow> exn + string"
  zip_extractall :: "node \<Rightarrow> string \<Rightarrow> string \<Rightarrow> exn + node"
  zip_open :: "node \<Rightarrow> string \<Rightarrow> exn + (string \<times> string) list"
  vsi_content :: "string \<Rightarrow> string option"

text \<open>\<^verbatim>\<open>'%s' in s\<close>\<close>

fun contains_pct_s :: "string \<Rightarrow> bool" where
  "contains_pct_s (a # b # rest) =
     ((a = CHR ''%'' \<and> b = CHR ''s'') \<or> contains_pct_s (b # rest))"
| "contains_pct_s _ = False"

text \<open>\<^verbatim>\<open>s.lower()\<close> on ASCII letters, and \<^verbatim>\<open>s.endswith(suffix)\<close>.\<close>

definition lower_char :: "char \<Rightarrow> char" where
  "lower_char c =
     (let n = (of_char c :: nat) in if 65 \<le> n \<and> n \<le> 90 then char_of (n + 32) else c)"

definition lower :: "string \<Rightarrow> string" where
  "lower s = map lower_char s"

definition endswith :: "string \<Rightarrow> string \<Rightarrow> bool" where
  "endswith s suffix =
     (length suffix \<le> length s \<and> drop (length s - length suffix) s = suffix)"

text \<open>What a Python function hands back when it returns: \<open>None\<close> or a boolean.\<close>

datatype pyret = RNone | RBool bool

section \<open>The ArchiveExpander classes\<close>

datatype expander_class = ArchiveExpander | ZipArchiveExpander

text \<open>
  The configured attributes \<open>target_dir\<close>, \<open>remove_input_file\<close> and \<open>clear_target_dir\<close>, and
  the field \<open>input_archive_file\<close> the constructor sets to \<open>None\<close>.
\<close>

record archive_expander =
  ae_class :: expander_class
  target_dir :: string
  remove_input_file :: bool
  clear_target_dir :: bool
  input_archive_file :: "pdata option"

text \<open>
  \<^verbatim>\<open>
  def output_path(self, packet):
      if type(packet.data) == str and '%s' in self.target_dir:
          return self.target_dir % self.safe_filename(packet.data)
      return self.target_dir
  \<close>
  The packet argument is \<open>None\<close> when the chain hands a stage no packet; reading
  \<open>packet.data\<close> then raises \<open>AttributeError\<close>.
\<close>

definition ae_output_path :: "pylib \<Rightarrow> archive_expander \<Rightarrow> packet option \<Rightarrow> exn + string" where
  "ae_output_path L self packet =
     (case packet of
        None \<Rightarrow> Inl AttributeError
      | Some p \<Rightarrow>
          (case data p of
             Some (PStr s) \<Rightarrow>
               (if contains_pct_s (target_dir self)
                then str_mod L (target_dir self) (safe_filename s)
                else Inr (target_dir self))
           | _ \<Rightarrow> Inr (target_dir self)))"

text \<open>
  \<^verbatim>\<open>
  def remove_file(self, file_path):
      if os.path.isfile(file_path):
          os.remove(file_path)
  \<close>
  \<open>os.path.isfile\<close> raises \<open>TypeError\<close> on \<open>None\<close> and on a dictionary. It takes an integer
  as a file descriptor; no descriptor is a regular file here, so it answers \<open>False\<close> and
  nothing is removed.
\<close>

definition ae_remove_file :: "node \<Rightarrow> pdata option \<Rightarrow> exn + node" where
  "ae_remove_file fs file_path =
     (case file_path of
        Some (PStr s) \<Rightarrow> (if isfile fs (path_of s) then os_remove fs (path_of s) else Inr fs)
      | Some (PInt n) \<Rightarrow> Inr fs
      | _ \<Rightarrow> Inl TypeError)"

text \<open>
  \<open>expand_archive\<close>: the base class only logs an error. ZipArchiveExpander:
  \<^verbatim>\<open>
  def expand_archive(self, file_path, output_path):
      if not file_path.lower().endswith('zip'):
          log.warn('No zipfile passed: {}'.format(file_path))
          return
      zipfile.ZipFile(file_path).extractall(path=output_path)
  \<close>
  A \<open>file_path\<close> that is no string has no \<open>lower\<close>: \<open>AttributeError\<close>.
\<close>

definition ae_expand_archive ::
  "pylib \<Rightarrow> archive_expander \<Rightarrow> pdata option \<Rightarrow> string \<Rightarrow> node \<Rightarrow> exn + node" where
  "ae_expand_archive L self file_path output_path fs =
     (case ae_class self of
        ArchiveExpander \<Rightarrow> Inr fs
      | ZipArchiveExpander \<Rightarrow>
          (case file_path of
             Some (PStr s) \<Rightarrow>
               (if \<not> endswith (lower s) ''zip'' then Inr fs
                else zip_extractall L fs s output_path)
           | _ \<Rightarrow> Inl AttributeError))"

text \<open>
  \<^verbatim>\<open>
  def invoke(self, packet):
      if packet.data is None:
          log.info("Input data is empty")
          return packet
      formatted_output_path = self.output_path(packet)
      self.wipe_dir(formatted_output_path)
      self.input_archive_file = packet.data
      self.expand_archive(self.input_archive_file, formatted_output_path)
      if not os.listdir(formatted_output_path):
          log.warn('No expanded files in {}'.format(formatted_output_path))
          packet.data = None
          return packet
      file_count = len(os.listdir(formatted_output_path))
      log.info(...)
      packet.data = formatted_output_path
      return packet
  \<close>
  The result is the packet returned or the exception raised, with the component and the
  file system as they are then. Logging is not modelled.
\<close>

definition ae_invoke ::
  "pylib \<Rightarrow> archive_expander \<Rightarrow> packet \<Rightarrow> node
     \<Rightarrow> (exn + packet) \<times> archive_expander \<times> node" where
  "ae_invoke L self packet fs =
     (if data packet = None then (Inr packet, self, fs)
      else
        (case ae_output_path L self (Some packet) of
           Inl e \<Rightarrow> (Inl e, self, fs)
         | Inr formatted_output_path \<Rightarrow>
             (case wipe_dir fs (path_of formatted_output_path) of
                (Some e, fs1) \<Rightarrow> (Inl e, self, fs1)
              | (None, fs1) \<Rightarrow>
                  (let self1 = self\<lparr>input_archive_file := data packet\<rparr> in
                   case ae_expand_archive L self1 (input_archive_file self1)
                          formatted_output_path fs1 of
                     Inl e \<Rightarrow> (Inl e, self1, fs1)
                   | Inr fs2 \<Rightarrow>
                       (case listdir fs2 (path_of formatted_output_path) of
                          Inl e \<Rightarrow> (Inl e, self1, fs2)
                        | Inr names \<Rightarrow>
                            (if names = [] then (Inr (packet\<lparr>data := None\<rparr>), self1, fs2)
                             else (Inr (packet\<lparr>data := Some (PStr formatted_output_path)\<rparr>),
                                   self1, fs2)))))))"

text \<open>
  \<^verbatim>\<open>
  def after_chain_invoke(self, packet):
      if self.remove_input_file:
          self.remove_file(self.input_archive_file)
      if self.clear_target_dir:
          self.wipe_dir(self.output_path(packet))
      return True
  \<close>
\<close>

definition ae_after_chain_invoke ::
  "pylib \<Rightarrow> archive_expander \<Rightarrow> packet option \<Rightarrow> node \<Rightarrow> (exn + pyret) \<times> node" where
  "ae_after_chain_invoke L self packet fs =
     (case (if remove_input_file self then ae_remove_file fs (input_archive_file self)
            else Inr fs) of
        Inl e \<Rightarrow> (Inl e, fs)
      | Inr fs1 \<Rightarrow>
          (if clear_target_dir self then
             (case ae_output_path L self packet of
                Inl e \<Rightarrow> (Inl e, fs1)
              | Inr p \<Rightarrow>
                  (case wipe_dir fs1 (path_of p) of
                     (Some e, fs2) \<Rightarrow> (Inl e, fs2)
                   | (None, fs2) \<Rightarrow> (Inr (RBool True), fs2)))
           else (Inr (RBool True), fs1)))"

section \<open>The FileExtractor classes\<close>

datatype extractor_class = FileExtractor | ZipFileExtractor | VsiFileExtractor

text \<open>The configured attributes \<open>file_path\<close>, \<open>delete_file\<close> and \<open>buffer_size\<close>.\<close>

record file_extractor =
  fx_class :: extractor_class
  file_path :: string
  delete_file :: bool
  buffer_size :: int

text \<open>
  What a FileExtractor acts on: the file system, and the files of GDAL's virtual file
  system that are open, by path, one entry for each handle not yet closed.
\<close>

record world =
  files :: node
  vsi_open :: "string list"

text \<open>
  \<open>output_path\<close>. FileExtractor ignores the packet:
  \<^verbatim>\<open>
  def output_path(self, _packet):
      return self.file_path
  \<close>
  ZipFileExtractor and VsiFileExtractor read \<open>packet.data\<close> first:
  \<^verbatim>\<open>
  def output_path(self, packet):                              # ZipFileExtractor
      if type(packet.data) == dict and '%s' in self.file_path:
          return self.file_path % self.safe_filename(packet.data['name'])
      else:
          return self.file_path

  def output_path(self, packet):                              # VsiFileExtractor
      if type(packet.data) == str and '%s' in self.file_path:
          return self.file_path % self.safe_filename(packet.data)
      else:
          return self.file_path
  \<close>
\<close>

definition fx_output_path :: "pylib \<Rightarrow> file_extractor \<Rightarrow> packet option \<Rightarrow> exn + string" where
  "fx_output_path L self packet =
     (case fx_class self of
        FileExtractor \<Rightarrow> Inr (file_path self)
      | ZipFileExtractor \<Rightarrow>
          (case packet of
             None \<Rightarrow> Inl AttributeError
           | Some p \<Rightarrow>
               (case data p of
                  Some (PDict d) \<Rightarrow>
                    (if contains_pct_s (file_path self) then
                       (case map_of d ''name'' of
                          None \<Rightarrow> Inl KeyError
                        | Some name \<Rightarrow> str_mod L (file_path self) (safe_filename name))
                     else Inr (file_path self))
                | _ \<Rightarrow> Inr (file_path self)))
      | VsiFileExtractor \<Rightarrow>
          (case packet of
             None \<Rightarrow> Inl AttributeError
           | Some p \<Rightarrow>
               (case data p of
                  Some (PStr s) \<Rightarrow>
                    (if contains_pct_s (file_path self)
                     then str_mod L (file_path self) (safe_filename s)
                     else Inr (file_path self))
                | _ \<Rightarrow> Inr (file_path self))))"

text \<open>
  \<^verbatim>\<open>
  def delete_target_file(self, packet):
      if os.path.isfile(self.output_path(packet)):
          os.remove(self.output_path(packet))
  \<close>
\<close>

definition fx_delete_target_file ::
  "pylib \<Rightarrow> file_extractor \<Rightarrow> packet option \<Rightarrow> world \<Rightarrow> exn option \<times> world" where
  "fx_delete_target_file L self packet w =
     (case fx_output_path L self packet of
        Inl e \<Rightarrow> (Some e, w)
      | Inr out \<Rightarrow>
          (if isfile (files w) (path_of out) then
             (case os_remove (files w) (path_of out) of
                Inl e \<Rightarrow> (Some e, w)
              | Inr fs1 \<Rightarrow> (None, w\<lparr>files := fs1\<rparr>))
           else (None, w)))"

text \<open>
  The copy loop of ZipFileExtractor, with what has been written so far:
  \<^verbatim>\<open>
  while True:
      buffer = zf.read(self.buffer_size)
      if not buffer:
          break
      f.write(buffer)
  \<close>
  \<open>zf.read(n)\<close> returns the next \<open>n\<close> bytes, or all that is left when \<open>n\<close> is negative.
\<close>

definition zf_read :: "int \<Rightarrow> string \<Rightarrow> string" where
  "zf_read n rest = (if n < 0 then rest else take (nat n) rest)"

function zip_copy :: "int \<Rightarrow> string \<Rightarrow> string \<Rightarrow> string" where
  "zip_copy n rest written =
     (let buffer = zf_read n rest in
      if buffer = [] then written
      else zip_copy n (drop (length buffer) rest) (written @ buffer))"
  by pat_completeness auto
termination
  by (relation "measure (\<lambda>(n, rest, written). length rest)")
    (auto simp: zf_read_def split: if_splits)

text \<open>
  \<^verbatim>\<open>
  def extract_file(self, packet):                             # ZipFileExtractor
      with zipfile.ZipFile(packet.data['file_path']) as z:
          with open(self.output_path(packet), 'wb') as f:
              with z.open(packet.data['name']) as zf:
                  ... the copy loop ...
  \<close>
  Subscripting a payload that is no dictionary raises \<open>TypeError\<close>, a missing key and a
  missing member raise \<open>KeyError\<close>. The output file exists, empty, from the moment it is
  opened. The archive is read as it was when it was opened.
\<close>

definition zip_extract_file ::
  "pylib \<Rightarrow> file_extractor \<Rightarrow> packet \<Rightarrow> world \<Rightarrow> exn option \<times> world" where
  "zip_extract_file L self packet w =
     (case data packet of
        Some (PDict d) \<Rightarrow>
          (case map_of d ''file_path'' of
             None \<Rightarrow> (Some KeyError, w)
           | Some archive \<Rightarrow>
               (case zip_open L (files w) archive of
                  Inl e \<Rightarrow> (Some e, w)
                | Inr members \<Rightarrow>
                    (case fx_output_path L self (Some packet) of
                       Inl e \<Rightarrow> (Some e, w)
                     | Inr out \<Rightarrow>
                         (case write_file (files w) (path_of out) [] of
                            Inl e \<Rightarrow> (Some e, w)
                          | Inr fs1 \<Rightarrow>
                              (case map_of d ''name'' of
                                 None \<Rightarrow> (Some KeyError, w\<lparr>files := fs1\<rparr>)
                               | Some name \<Rightarrow>
                                   (case map_of members name of
                                      None \<Rightarrow> (Some KeyError, w\<lparr>files := fs1\<rparr>)
                                    | Some content \<Rightarrow>
                                        (None,
                                         w\<lparr>files :=
                                             put (path_of out)
                                               (File (zip_copy (buffer_size self) content []))
                                               fs1\<rparr>)))))))
      | _ \<Rightarrow> (Some TypeError, w))"

text \<open>
  The copy loop of VsiFileExtractor:
  \<^verbatim>\<open>
  while True:
      buffer = gdal.VSIFReadL(1, read_size, vsi)
      if not buffer or len(buffer) == 0:
          break
      f.write(buffer)
  \<close>
  \<open>VSIFReadL(1, n, vsi)\<close> returns the next \<open>n\<close> bytes, nothing when \<open>n\<close> is not positive.
\<close>

definition vsi_read :: "int \<Rightarrow> string \<Rightarrow> string" where
  "vsi_read n rest = take (nat n) rest"

function vsi_copy :: "int \<Rightarrow> string \<Rightarrow> string \<Rightarrow> string" where
  "vsi_copy n rest written =
     (let buffer = vsi_read n rest in
      if buffer = [] then written
      else vsi_copy n (drop (length buffer) rest) (written @ buffer))"
  by pat_completeness auto
termination
  by (relation "measure (\<lambda>(n, rest, written). length rest)")
    (auto simp: vsi_read_def)

text \<open>
  The \<open>try\<close> block of VsiFileExtractor.extract\_file, with the value of the local variable
  \<open>vsi\<close> when the block is left:
  \<^verbatim>\<open>
  vsi_file_path = packet.data
  vsi = None
  vsi_len = 0
  try:
      vsi = gdal.VSIFOpenL(vsi_file_path, 'rb')
      with open(self.output_path(packet), 'wb') as f:
          gdal.VSIFSeekL(vsi, 0, 2)
          vsi_len = gdal.VSIFTellL(vsi)
          gdal.VSIFSeekL(vsi, 0, 0)
          read_size = self.buffer_size
          if vsi_len < read_size:
              read_size = vsi_len
          ... the copy loop ...
  \<close>
  \<open>VSIFOpenL\<close> raises \<open>TypeError\<close> on a path that is no string and returns \<open>None\<close> for a
  file it cannot open; \<open>VSIFSeekL\<close> on \<open>None\<close> raises \<open>ValueError\<close>, after the output file
  has been opened.
\<close>

definition vsi_try_block ::
  "pylib \<Rightarrow> file_extractor \<Rightarrow> packet \<Rightarrow> world \<Rightarrow> exn option \<times> world \<times> string option" where
  "vsi_try_block L self packet w =
     (case data packet of
        Some (PStr vsi_file_path) \<Rightarrow>
          (case vsi_content L vsi_file_path of
             None \<Rightarrow>
               (case fx_output_path L self (Some packet) of
                  Inl e \<Rightarrow> (Some e, w, None)
                | Inr out \<Rightarrow>
                    (case write_file (files w) (path_of out) [] of
                       Inl e \<Rightarrow> (Some e, w, None)
                     | Inr fs1 \<Rightarrow> (Some ValueError, w\<lparr>files := fs1\<rparr>, None)))
           | Some content \<Rightarrow>
               (let w1 = w\<lparr>vsi_open := vsi_file_path # vsi_open w\<rparr> in
                case fx_output_path L self (Some packet) of
                  Inl e \<Rightarrow> (Some e, w1, Some vsi_file_path)
                | Inr out \<Rightarrow>
                    (case write_file (files w1) (path_of out) [] of
                       Inl e \<Rightarrow> (Some e, w1, Some vsi_file_path)
                     | Inr fs1 \<Rightarrow>
                         (let vsi_len = int (length content);
                              read_size = (if vsi_len < buffer_size self then vsi_len
                                           else buffer_size self)
                          in (None,
                              w1\<lparr>files :=
                                   put (path_of out) (File (vsi_copy read_size content [])) fs1\<rparr>,
                              Some vsi_file_path)))))
      | _ \<Rightarrow> (Some TypeError, w, None))"

text \<open>
  The rest of it: the handler raises the exception again, and the \<open>finally\<close> clause closes
  the handle if there is one.
  \<^verbatim>\<open>
  except Exception as e:
      log.error('Cannot extract {} err={}'.format(vsi_file_path, str(e)))
      raise e
  finally:
      if vsi:
          log.info(...)
          gdal.VSIFCloseL(vsi)
  \<close>
\<close>

definition vsi_extract_file ::
  "pylib \<Rightarrow> file_extractor \<Rightarrow> packet \<Rightarrow> world \<Rightarrow> exn option \<times> world" where
  "vsi_extract_file L self packet w =
     (case vsi_try_block L self packet w of
        (r, w1, vsi) \<Rightarrow>
          (let raised = (case r of Some e \<Rightarrow> Some e | None \<Rightarrow> None);
               w2 = (case vsi of
                       None \<Rightarrow> w1
                     | Some h \<Rightarrow> w1\<lparr>vsi_open := remove1 h (vsi_open w1)\<rparr>)
           in (raised, w2)))"

text \<open>\<open>extract_file\<close> of the base class only logs an error.\<close>

definition fx_extract_file ::
  "pylib \<Rightarrow> file_extractor \<Rightarrow> packet \<Rightarrow> world \<Rightarrow> exn option \<times> world" where
  "fx_extract_file L self packet w =
     (case fx_class self of
        FileExtractor \<Rightarrow> (None, w)
      | ZipFileExtractor \<Rightarrow> zip_extract_file L self packet w
      | VsiFileExtractor \<Rightarrow> vsi_extract_file L self packet w)"

text \<open>
  \<^verbatim>\<open>
  def invoke(self, packet):
      if packet.data is None:
          log.info("Input data is empty")
          return packet
      self.delete_target_file(packet)
      self.extract_file(packet)
      packet.data = self.output_path(packet)
      if not os.path.isfile(packet.data):
          log.warn('Extracted file {} does not exist'.format(packet.data))
          packet.data = None
      return packet
  \<close>
\<close>

definition fx_invoke ::
  "pylib \<Rightarrow> file_extractor \<Rightarrow> packet \<Rightarrow> world \<Rightarrow> (exn + packet) \<times> world" where
  "fx_invoke L self packet w =
     (if data packet = None then (Inr packet, w)
      else
        (case fx_delete_target_file L self (Some packet) w of
           (Some e, w1) \<Rightarrow> (Inl e, w1)
         | (None, w1) \<Rightarrow>
             (case fx_extract_file L self packet w1 of
                (Some e, w2) \<Rightarrow> (Inl e, w2)
              | (None, w2) \<Rightarrow>
                  (case fx_output_path L self (Some packet) of
                     Inl e \<Rightarrow> (Inl e, w2)
                   | Inr out \<Rightarrow>
                       (let packet1 = packet\<lparr>data := Some (PStr out)\<rparr> in
                        if \<not> isfile (files w2) (path_of out)
                        then (Inr (packet1\<lparr>data := None\<rparr>), w2)
                        else (Inr packet1, w2))))))"

text \<open>
  \<^verbatim>\<open>
  def after_chain_invoke(self, packet):
      if not self.delete_file:
          return
      # This does not work with a dynamic output path because packet is None!
      # We cannot reconstruct the output path
      self.delete_target_file(packet)
      return True
  \<close>
\<close>

definition fx_after_chain_invoke ::
  "pylib \<Rightarrow> file_extractor \<Rightarrow> packet option \<Rightarrow> world \<Rightarrow> (exn + pyret) \<times> world" where
  "fx_after_chain_invoke L self packet w =
     (if \<not> delete_file self then (Inr RNone, w)
      else
        (case fx_delete_target_file L self packet w of
           (Some e, w1) \<Rightarrow> (Inl e, w1)
         | (None, w1) \<Rightarrow> (Inr (RBool True), w1)))"

section \<open>A concrete setting for the examples\<close>

text \<open>
  A library instance to run the components on: formatting replaces the first \<open>%s\<close>,
  every archive holds the one member \<open>m.xml\<close>, which \<open>extractall\<close> writes into the target
  directory, and the virtual file system holds one file.
\<close>

fun subst_pct_s :: "string \<Rightarrow> string \<Rightarrow> string" where
  "subst_pct_s (a # b # rest) arg =
     (if a = CHR ''%'' \<and> b = CHR ''s'' then arg @ rest else a # subst_pct_s (b # rest) arg)"
| "subst_pct_s s arg = s"

definition example_lib :: pylib where
  "example_lib =
     \<lparr>str_mod = (\<lambda>fmt arg. Inr (subst_pct_s fmt arg)),
      zip_extractall =
        (\<lambda>fs archive dir.
           if isfile fs (path_of archive)
           then write_file fs (path_of dir @ [''m.xml'']) ''<a/>''
           else Inl IOError),
      zip_open =
        (\<lambda>fs archive.
           if isfile fs (path_of archive) then Inr [(''m.xml'', ''<a/>'')] else Inl IOError),
      vsi_content = (\<lambda>p. if p = ''/vsizip/in/a.zip/m.xml'' then Some ''<a/>'' else None)\<rparr>"

definition example_fs :: node where
  "example_fs =
     Dir [(''in'', Dir [(''a.zip'', File ''PK'')]),
          (''out'', Dir [(''old.xml'', File ''old''), (''m.xml'', File ''stale'')])]"

definition example_packet :: "pdata option \<Rightarrow> packet" where
  "example_packet d = \<lparr>data = d, format = ''any'', chain_metadata = []\<rparr>"

section \<open>The ETL driver\<close>

text \<open>
  The configuration store of \<open>ConfigParser\<close>: the options of the \<open>DEFAULT\<close> section and the
  options of each named section. \<open>ConfigParser()\<close> creates it empty.
\<close>

record config =
  defaults :: "(string \<times> string) list"
  sections :: "(string \<times> (string \<times> string) list) list"

definition empty_config :: config where
  "empty_config = \<lparr>defaults = [], sections = []\<rparr>"

text \<open>
  What the driver takes from the interpreter and from \<open>ConfigParser\<close> is a parameter of the
  model:
  \<^item> \<open>str_format s args\<close> is \<open>s.format(*args)\<close>, which raises when a replacement field
    has no argument or is malformed;
  \<^item> \<open>parse_config text\<close> is the parse of a configuration text into an empty store: the
    exception raised, if any, and what the store holds when the parse ends;
  \<^item> \<open>interpolate c section option value\<close> is the expansion of \<open>%(name)s\<close> references that
    \<open>ConfigParser.get\<close> applies to the value it found.
\<close>

record etl_lib =
  str_format :: "string \<Rightarrow> string list \<Rightarrow> exn + string"
  parse_config :: "string \<Rightarrow> exn option \<times> config"
  interpolate :: "config \<Rightarrow> string \<Rightarrow> string \<Rightarrow> string \<Rightarrow> exn + string"

record etl =
  configdict :: config

text \<open>
  The \<open>try\<close> block of the constructor, started on the empty store: the exception raised,
  if any, and the store when the block is left.
  \<^verbatim>\<open>
  self.configdict = ConfigParser()
  try:
      if args:
          args_tuple = tuple(args)
          file = open(config_file, 'r')
          config_str = file.read()
          file.close()
          config_str = config_str.format(*args_tuple)
          config_buf = StringIO.StringIO(config_str)
          self.configdict.readfp(config_buf, config_file)
      else:
          self.configdict.read(config_file)
  \<close>
  \<open>options.config_file\<close> is \<open>None\<close> when no file was named: \<open>open\<close> and \<open>read\<close> raise
  \<open>TypeError\<close> on it. \<open>open\<close> raises \<open>IOError\<close> on a path that is no regular file, while
  \<open>ConfigParser.read\<close> skips a file it cannot open.
\<close>

definition read_config ::
  "etl_lib \<Rightarrow> node \<Rightarrow> string option \<Rightarrow> string list \<Rightarrow> exn option \<times> config" where
  "read_config L fs config_file args =
     (case config_file of
        None \<Rightarrow> (Some TypeError, empty_config)
      | Some name \<Rightarrow>
          (if args \<noteq> [] then
             (case lookup (path_of name) fs of
                Some (File config_str) \<Rightarrow>
                  (case str_format L config_str args of
                     Inl e \<Rightarrow> (Some e, empty_config)
                   | Inr config_str' \<Rightarrow> parse_config L config_str')
              | _ \<Rightarrow> (Some IOError, empty_config))
           else
             (case lookup (path_of name) fs of
                Some (File config_str) \<Rightarrow> parse_config L config_str
              | _ \<Rightarrow> (None, empty_config))))"

text \<open>
  The handler catches whatever the block raised and logs a warning:
  \<^verbatim>\<open>
  except:
      log.warning("Cannot read config file: %s" % config_file)
  \<close>
  so the constructor hands back the driver in every case.
\<close>

definition etl_init :: "etl_lib \<Rightarrow> node \<Rightarrow> string option \<Rightarrow> string list \<Rightarrow> exn + etl" where
  "etl_init L fs config_file args =
     (case read_config L fs config_file args of
        (Some e, c) \<Rightarrow> Inr \<lparr>configdict = c\<rparr>
      | (None, c) \<Rightarrow> Inr \<lparr>configdict = c\<rparr>)"

text \<open>
  \<open>ConfigParser.get(section, option)\<close> for a section other than \<open>DEFAULT\<close>: a missing
  section raises \<open>NoSectionError\<close>; the option is looked up in the section, then in the
  defaults, and raises \<open>NoOptionError\<close> when neither has it.
\<close>

definition config_get :: "etl_lib \<Rightarrow> config \<Rightarrow> string \<Rightarrow> string \<Rightarrow> exn + string" where
  "config_get L c section option =
     (case map_of (sections c) section of
        None \<Rightarrow> Inl NoSectionError
      | Some sectiondict \<Rightarrow>
          (case map_of sectiondict option of
             Some v \<Rightarrow> interpolate L c section option v
           | None \<Rightarrow>
               (case map_of (defaults c) option of
                  Some v \<Rightarrow> interpolate L c section option v
                | None \<Rightarrow> Inl NoOptionError)))"

text \<open>\<^verbatim>\<open>s.strip()\<close>: without the whitespace at both ends.\<close>

definition is_space :: "char \<Rightarrow> bool" where
  "is_space c = (c \<in> set [CHR '' '', CHR 0x09, CHR 0x0A, CHR 0x0B, CHR 0x0C, CHR 0x0D])"

definition strip :: "string \<Rightarrow> string" where
  "strip s = rev (dropWhile is_space (rev (dropWhile is_space s)))"

text \<open>
  The class \<open>Chain\<close> is imported from \<open>setl.chain\<close>. Its constructor and its methods
  \<open>assemble\<close> and \<open>run\<close> are parameters of the model; they act on a world of their own, and
  each may raise.
\<close>

record ('c, 'w) chain_api =
  chain_new :: "string \<Rightarrow> config \<Rightarrow> 'w \<Rightarrow> (exn + 'c) \<times> 'w"
  chain_assemble :: "'c \<Rightarrow> 'w \<Rightarrow> (exn + 'c) \<times> 'w"
  chain_run :: "'c \<Rightarrow> 'w \<Rightarrow> exn option \<times> 'w"

text \<open>
  \<^verbatim>\<open>
  for chain_str in chains_str_arr:
      chain = Chain(chain_str.strip(), self.configdict)
      chain.assemble()
      chain.run()
  \<close>
\<close>

fun run_chains ::
  "('c, 'w) chain_api \<Rightarrow> config \<Rightarrow> string list \<Rightarrow> 'w \<Rightarrow> exn option \<times> 'w" where
  "run_chains C c [] w = (None, w)"
| "run_chains C c (chain_str # rest) w =
     (case chain_new C (strip chain_str) c w of
        (Inl e, w1) \<Rightarrow> (Some e, w1)
      | (Inr chain, w1) \<Rightarrow>
          (case chain_assemble C chain w1 of
             (Inl e, w2) \<Rightarrow> (Some e, w2)
           | (Inr chain', w2) \<Rightarrow>
               (case chain_run C chain' w2 of
                  (Some e, w3) \<Rightarrow> (Some e, w3)
                | (None, w3) \<Rightarrow> run_chains C c rest w3)))"

text \<open>
  \<^verbatim>\<open>
  def run(self):
      chains_str = self.configdict.get('etl', 'chains')
      if not chains_str:
          raise ValueError('ETL chain entry not defined in section [etl]')
      chains_str_arr = chains_str.split(',')
      for chain_str in chains_str_arr:
          ...
  \<close>
\<close>

definition etl_run ::
  "etl_lib \<Rightarrow> ('c, 'w) chain_api \<Rightarrow> etl \<Rightarrow> 'w \<Rightarrow> exn option \<times> 'w" where
  "etl_run L C self w =
     (case config_get L (configdict self) ''etl'' ''chains'' of
        Inl e \<Rightarrow> (Some e, w)
      | Inr chains_str \<Rightarrow>
          (if chains_str = [] then (Some ValueError, w)
           else run_chains C (configdict self) (split_on (CHR '','') chains_str) w))"



text \<open>A library instance for the examples: no replacement fields, no interpolation, and
  one configuration text that parses.\<close>

definition example_etl_lib :: etl_lib where
  "example_etl_lib =
     \<lparr>str_format = (\<lambda>s args. Inr s),
      parse_config =
        (\<lambda>text. if text = ''[etl]''
                then (None, \<lparr>defaults = [], sections = [(''etl'', [(''chains'', ''a|b, c|d'')])]\<rparr>)
                else (Some (LibraryError ''ParsingError''), empty_config)),
      interpolate = (\<lambda>c section option v. Inr v)\<rparr>"


section \<open>Verified properties\<close>

subsection \<open>safe\_filename\<close>

lemma lower_chars: "map char_of [97..<123::nat] = ''abcdefghijklmnopqrstuvwxyz''"
  by code_simp

lemma upper_chars: "map char_of [65..<91::nat] = ''ABCDEFGHIJKLMNOPQRSTUVWXYZ''"
  by code_simp

lemma digit_chars: "map char_of [48..<58::nat] = ''0123456789''"
  by code_simp

lemma char_in_range:
  assumes "a \<le> (of_char c :: nat)" and "of_char c < b"
  shows "c \<in> set (map char_of [a..<b])"
proof -
  from assms have "(of_char c :: nat) \<in> set [a..<b]" by simp
  then have "char_of (of_char c :: nat) \<in> char_of ` set [a..<b]" by (rule imageI)
  then show ?thesis by simp
qed

lemma dot_char:
  assumes "(of_char c :: nat) = 46"
  shows "c = CHR ''.''"
proof -
  have "char_of (of_char c :: nat) = c" by simp
  with assms have "c = char_of (46::nat)" by simp
  also have "char_of (46::nat) = CHR ''.''" by code_simp
  finally show ?thesis .
qed

text \<open>The regular expression's class is exactly the ASCII letters, the digits and the dot.\<close>

lemma in_class_iff:
  "in_class c \<longleftrightarrow> is_ascii_letter c \<or> is_ascii_digit c \<or> c = CHR ''.''"
proof
  assume "in_class c"
  then consider "97 \<le> (of_char c :: nat) \<and> (of_char c :: nat) < 123"
    | "65 \<le> (of_char c :: nat) \<and> (of_char c :: nat) < 91"
    | "48 \<le> (of_char c :: nat) \<and> (of_char c :: nat) < 58"
    | "(of_char c :: nat) = 46"
    unfolding in_class_def Let_def by fastforce
  then show "is_ascii_letter c \<or> is_ascii_digit c \<or> c = CHR ''.''"
  proof cases
    case 1
    then have "c \<in> set ''abcdefghijklmnopqrstuvwxyz''"
      using char_in_range[of 97 c 123] unfolding lower_chars by blast
    then show ?thesis unfolding is_ascii_letter_def by blast
  next
    case 2
    then have "c \<in> set ''ABCDEFGHIJKLMNOPQRSTUVWXYZ''"
      using char_in_range[of 65 c 91] unfolding upper_chars by blast
    then show ?thesis unfolding is_ascii_letter_def by blast
  next
    case 3
    then have "c \<in> set ''0123456789''"
      using char_in_range[of 48 c 58] unfolding digit_chars by blast
    then show ?thesis unfolding is_ascii_digit_def by blast
  next
    case 4
    then show ?thesis using dot_char by blast
  qed
next
  have "\<forall>x \<in> set ''abcdefghijklmnopqrstuvwxyzABCDEFGHIJKLMNOPQRSTUVWXYZ0123456789.''. in_class x"
    by (simp add: in_class_def)
  moreover assume "is_ascii_letter c \<or> is_ascii_digit c \<or> c = CHR ''.''"
  ultimately show "in_class c"
    unfolding is_ascii_letter_def is_ascii_digit_def by auto
qed

lemma underscore_not_in_class: "\<not> in_class (CHR ''_'')"
  by (simp add: in_class_def)

text \<open>
  C9. \<open>safe_filename\<close> keeps the length of its argument; its result holds only ASCII
  letters, digits, dots and underscores, every other character having become an
  underscore; and applying it twice is the same as applying it once.
\<close>

theorem safe_filename_closed_idempotent:
  "length (safe_filename s) = length s
   \<and> (\<forall>c \<in> set (safe_filename s).
        is_ascii_letter c \<or> is_ascii_digit c \<or> c = CHR ''.'' \<or> c = CHR ''_'')
   \<and> (\<forall>i < length s.
        safe_filename s ! i =
          (if is_ascii_letter (s ! i) \<or> is_ascii_digit (s ! i) \<or> s ! i = CHR ''.''
           then s ! i else CHR ''_''))
   \<and> safe_filename (safe_filename s) = safe_filename s"
proof (intro conjI)
  show "length (safe_filename s) = length s"
    by (simp add: safe_filename_def)
  show "\<forall>c \<in> set (safe_filename s).
          is_ascii_letter c \<or> is_ascii_digit c \<or> c = CHR ''.'' \<or> c = CHR ''_''"
    using in_class_iff by (auto simp: safe_filename_def)
  show "\<forall>i < length s.
          safe_filename s ! i =
            (if is_ascii_letter (s ! i) \<or> is_ascii_digit (s ! i) \<or> s ! i = CHR ''.''
             then s ! i else CHR ''_'')"
    using in_class_iff by (simp add: safe_filename_def)
  show "safe_filename (safe_filename s) = safe_filename s"
    by (induction s) (simp_all add: safe_filename_def underscore_not_in_class)
qed

theorem safe_filename_closed_idempotent_witness:
  "safe_filename ''a b/c_d.zip'' = ''a_b_c_d.zip''
   \<and> length (safe_filename ''a b/c_d.zip'') = 11
   \<and> safe_filename (safe_filename ''a b/c_d.zip'') = safe_filename ''a b/c_d.zip''"
  using safe_filename_closed_idempotent[of "''a b/c_d.zip''"]
  by (simp add: safe_filename_def in_class_def)

subsection \<open>wipe\_dir\<close>

lemma isdir_lookup: "isdir fs p = (\<exists>es. lookup p fs = Some (Dir es))"
  by (auto simp: isdir_def split: option.splits node.splits)

lemma isfile_lookup: "isfile fs p = (\<exists>c. lookup p fs = Some (File c))"
  by (auto simp: isfile_def split: option.splits node.splits)

lemma lookup_child: "lookup d fs = Some (Dir es) \<Longrightarrow> lookup (d @ [n]) fs = map_of es n"
  by (simp add: lookup_append split: option.splits)

lemma put_same: "lookup d fs = Some m \<Longrightarrow> put d m fs = fs"
  by (induction d arbitrary: fs)
    (auto split: node.splits option.splits simp: AList.update_triv)

lemma lookup_put: "lookup d fs = Some m \<Longrightarrow> lookup d (put d v fs) = Some v"
  by (induction d arbitrary: fs) (auto split: node.splits option.splits simp: update_conv')

lemma put_put: "lookup d fs = Some m \<Longrightarrow> put d v (put d w fs) = put d v fs"
  by (induction d arbitrary: fs) (auto split: node.splits option.splits simp: update_conv')

lemma del_child:
  "lookup d fs = Some (Dir es) \<Longrightarrow> del (d @ [n]) fs = put d (Dir (AList.delete n es)) fs"
  by (induction d arbitrary: fs) (auto split: node.splits option.splits)

lemma put_child:
  "lookup d fs = Some (Dir es) \<Longrightarrow> map_of es n = Some m \<Longrightarrow>
   put (d @ [n]) v fs = put d (Dir (AList.update n v es)) fs"
  by (induction d arbitrary: fs) (auto split: node.splits option.splits)

text \<open>
  On a well-formed tree the loop over paths does what \<open>wipe_entries\<close> reads off the
  listing: the induction follows \<open>wipe_entries\<close>, with the directory and the file system
  generalised because the loop changes the file system and the recursion the directory.
\<close>

lemma wipe_loop_refines:
  "lookup d fs = Some (Dir es) \<Longrightarrow> wf_node (Dir es) \<Longrightarrow>
   wipe_loop fs d (map fst es) =
     (case wipe_entries es of (r, es') \<Rightarrow> (r, put d (Dir es') fs))"
proof (induction es arbitrary: d fs rule: wipe_entries.induct)
  case 1
  then show ?case by (simp add: put_same)
next
  case (2 name c es)
  let ?p = "d @ [name]"
  let ?fs1 = "put d (Dir es) fs"
  from "2.prems" have child: "lookup ?p fs = Some (File c)"
    by (simp add: lookup_child)
  from "2.prems" have fresh: "name \<notin> fst ` set es" and wf: "wf_node (Dir es)"
    by simp_all
  have nodir: "\<not> isdir fs ?p" using child by (simp add: isdir_lookup)
  have "del ?p fs = put d (Dir (AList.delete name ((name, File c) # es))) fs"
    using "2.prems"(1) by (rule del_child)
  also have "AList.delete name ((name, File c) # es) = es"
    using fresh by simp
  finally have rm: "os_remove fs ?p = Inr ?fs1"
    using child by (simp add: os_remove_def isfile_lookup)
  have look1: "lookup d ?fs1 = Some (Dir es)"
    using "2.prems"(1) by (rule lookup_put)
  have "wipe_loop ?fs1 d (map fst es) =
        (case wipe_entries es of (r, es') \<Rightarrow> (r, put d (Dir es') ?fs1))"
    using look1 wf by (rule "2.IH")
  also have "\<dots> = (case wipe_entries es of (r, es') \<Rightarrow> (r, put d (Dir es') fs))"
    using "2.prems"(1) by (simp add: put_put split: prod.splits)
  finally show ?case using nodir rm by simp
next
  case (3 name sub es)
  let ?p = "d @ [name]"
  obtain r1 sub' where we: "wipe_entries sub = (r1, sub')" by (cases "wipe_entries sub")
  let ?fs1 = "put d (Dir ((name, Dir sub') # es)) fs"
  from "3.prems" have child: "lookup ?p fs = Some (Dir sub)"
    by (simp add: lookup_child)
  from "3.prems" have fresh: "name \<notin> fst ` set es" and wfsub: "wf_node (Dir sub)"
    by simp_all
  have isd: "isdir fs ?p" using child by (simp add: isdir_lookup)
  have ls: "listdir fs ?p = Inr (map fst sub)" using child by (simp add: listdir_def)
  have "wipe_loop fs ?p (map fst sub) = (r1, put ?p (Dir sub') fs)"
    using "3.IH"[OF child wfsub] we by simp
  also have "put ?p (Dir sub') fs = ?fs1"
    using put_child[OF "3.prems"(1), of name "Dir sub" "Dir sub'"] by simp
  finally have wd: "wipe_dir fs ?p = (r1, ?fs1)" using isd ls by simp
  have look1: "lookup d ?fs1 = Some (Dir ((name, Dir sub') # es))"
    using "3.prems"(1) by (rule lookup_put)
  have child1: "lookup ?p ?fs1 = Some (Dir sub')"
    using look1 by (simp add: lookup_child)
  show ?case
  proof (cases r1)
    case (Some e)
    then show ?thesis using isd wd we by simp
  next
    case None
    show ?thesis
    proof (cases "sub' = []")
      case True
      have "del ?p ?fs1 = put d (Dir (AList.delete name ((name, Dir sub') # es))) ?fs1"
        using look1 by (rule del_child)
      also have "AList.delete name ((name, Dir sub') # es) = es"
        using fresh by simp
      also have "put d (Dir es) ?fs1 = put d (Dir es) fs"
        using "3.prems"(1) by (rule put_put)
      finally have "os_rmdir ?fs1 ?p = Inr (put d (Dir es) fs)"
        using child1 True by (simp add: os_rmdir_def)
      then show ?thesis using isd wd we None True by simp
    next
      case False
      then have "os_rmdir ?fs1 ?p = Inl OSError"
        using child1 by (simp add: os_rmdir_def split: list.splits)
      then show ?thesis using isd wd we None False by simp
    qed
  qed
qed

lemma wipe_dir_refines:
  "lookup d fs = Some (Dir es) \<Longrightarrow> wf_node (Dir es) \<Longrightarrow>
   wipe_dir fs d = (case wipe_entries es of (r, es') \<Rightarrow> (r, put d (Dir es') fs))"
  using wipe_loop_refines[of d fs es] by (simp add: isdir_lookup listdir_def)

lemma wipe_dir_not_dir: "\<not> isdir fs d \<Longrightarrow> wipe_dir fs d = (None, fs)"
  by simp

lemma wipe_entries_regular:
  "list_all (\<lambda>e. is_regular (snd e)) es \<Longrightarrow> wipe_entries es = (None, [])"
  by (induction es rule: wipe_entries.induct) (simp_all add: is_regular_def)

lemma wipe_entries_skip_regular:
  "list_all (\<lambda>e. is_regular (snd e)) pre \<Longrightarrow> wipe_entries (pre @ es) = wipe_entries es"
proof (induction pre)
  case Nil
  then show ?case by simp
next
  case (Cons e pre)
  obtain name m where e: "e = (name, m)" by (cases e)
  with Cons.prems obtain c where "m = File c"
    by (cases m) (simp_all add: is_regular_def)
  with e Cons show ?case by simp
qed

lemma wf_node_suffix: "wf_node (Dir (pre @ es)) \<Longrightarrow> wf_node (Dir es)"
  by simp

lemma wf_node_entry: "wf_node (Dir (pre @ (name, m) # post)) \<Longrightarrow> wf_node m"
  by simp

text \<open>Wiping a directory on its own, as the root of a file system.\<close>

lemma wipe_dir_root:
  "wf_node (Dir sub) \<Longrightarrow>
   wipe_dir (Dir sub) [] = (case wipe_entries sub of (r, sub') \<Rightarrow> (r, Dir sub'))"
  using wipe_dir_refines[of "[]" "Dir sub" sub] by simp

text \<open>
  C10 fails in the code. The claim has the first subdirectory wiped and removed and
  \<open>wipe_dir\<close> returning. Directory \<open>a\<close> holds a subdirectory \<open>b\<close> followed by a file \<open>c\<close>.
  Wiping the root meets \<open>a\<close> first; the wipe of \<open>a\<close> removes \<open>b\<close> and, by the \<open>return\<close> inside
  the loop, stops there, leaving \<open>c\<close>; \<open>os.rmdir\<close> of \<open>a\<close> then raises \<open>OSError\<close>, so \<open>a\<close> is
  still there and \<open>wipe_dir\<close> does not return. The method is named \<open>wipe_dir\<close> and serves
  \<open>clear_target_dir\<close>, documented as deleting the files from the target directory: the
  \<open>return\<close> is a slip of the code.
\<close>

theorem wipe_dir_nested_raises:
  "wipe_dir (Dir [(''a'', Dir [(''b'', Dir []), (''c'', File ''x'')])]) []
     = (Some OSError, Dir [(''a'', Dir [(''c'', File ''x'')])])
   \<and> isdir (snd (wipe_dir (Dir [(''a'', Dir [(''b'', Dir []), (''c'', File ''x'')])]) [])) [''a'']"
  by (simp add: isdir_def listdir_def os_rmdir_def os_remove_def isfile_def)

text \<open>
  What the code does where it does not raise, on a well-formed tree. On a path that is
  not a directory \<open>wipe_dir\<close> does nothing, and on a directory with no subdirectory it
  removes every entry. On a directory whose listing holds a subdirectory, the slip shows:
  the regular files listed before the first subdirectory are removed, that subdirectory
  is wiped and, when that wipe leaves it empty, removed, and the \<open>return\<close> then leaves every
  entry listed after it in place.
\<close>

lemma wipe_dir_first_subdirectory:
  "(\<not> isdir fs d \<longrightarrow> wipe_dir fs d = (None, fs))
   \<and> (lookup d fs = Some (Dir es) \<and> wf_node (Dir es)
        \<and> list_all (\<lambda>e. is_regular (snd e)) es
      \<longrightarrow> wipe_dir fs d = (None, put d (Dir []) fs))
   \<and> (lookup d fs = Some (Dir (pre @ (name, Dir sub) # post))
        \<and> wf_node (Dir (pre @ (name, Dir sub) # post))
        \<and> list_all (\<lambda>e. is_regular (snd e)) pre
        \<and> wipe_dir (Dir sub) [] = (None, Dir [])
      \<longrightarrow> wipe_dir fs d = (None, put d (Dir post) fs))"
proof (intro conjI impI)
  assume "\<not> isdir fs d"
  then show "wipe_dir fs d = (None, fs)" by (rule wipe_dir_not_dir)
next
  assume h: "lookup d fs = Some (Dir es) \<and> wf_node (Dir es)
             \<and> list_all (\<lambda>e. is_regular (snd e)) es"
  then have "wipe_entries es = (None, [])" by (simp add: wipe_entries_regular)
  with h show "wipe_dir fs d = (None, put d (Dir []) fs)"
    using wipe_dir_refines[of d fs es] by simp
next
  let ?es = "pre @ (name, Dir sub) # post"
  assume h: "lookup d fs = Some (Dir ?es) \<and> wf_node (Dir ?es)
             \<and> list_all (\<lambda>e. is_regular (snd e)) pre
             \<and> wipe_dir (Dir sub) [] = (None, Dir [])"
  then have "wf_node (Dir sub)" using wf_node_entry[of pre name "Dir sub" post] by blast
  with h have sub: "wipe_entries sub = (None, [])"
    using wipe_dir_root[of sub] by (simp split: prod.splits)
  from h have "wipe_entries ?es = wipe_entries ((name, Dir sub) # post)"
    using wipe_entries_skip_regular[of pre] by blast
  with sub have "wipe_entries ?es = (None, post)" by simp
  with h show "wipe_dir fs d = (None, put d (Dir post) fs)"
    using wipe_dir_refines[of d fs ?es] by simp
qed

lemma wipe_dir_first_subdirectory_example:
  "wipe_dir (Dir [(''etc'', File ''e''), (''tmp'', Dir [(''f'', File ''1''), (''g'', File ''2'')])])
       [''etc'']
     = (None, Dir [(''etc'', File ''e''), (''tmp'', Dir [(''f'', File ''1''), (''g'', File ''2'')])])
   \<and> wipe_dir (Dir [(''etc'', File ''e''), (''tmp'', Dir [(''f'', File ''1''), (''g'', File ''2'')])])
       [''tmp'']
     = (None, Dir [(''etc'', File ''e''), (''tmp'', Dir [])])
   \<and> wipe_dir (Dir [(''tmp'', Dir [(''f'', File ''1''), (''s'', Dir [(''h'', File ''3'')]),
                                  (''g'', File ''2''), (''t'', Dir [])])])
       [''tmp'']
     = (None, Dir [(''tmp'', Dir [(''g'', File ''2''), (''t'', Dir [])])])"
proof (intro conjI)
  let ?fs = "Dir [(''etc'', File ''e''), (''tmp'', Dir [(''f'', File ''1''), (''g'', File ''2'')])]"
  let ?es = "[(''f'', File ''1''), (''g'', File ''2'')]"
  show "wipe_dir ?fs [''etc''] = (None, ?fs)"
    by (rule wipe_dir_first_subdirectory[THEN conjunct1, THEN mp]) (simp add: isdir_def)
  have "wipe_dir ?fs [''tmp''] = (None, put [''tmp''] (Dir []) ?fs)"
    by (rule wipe_dir_first_subdirectory
          [where es = ?es, THEN conjunct2, THEN conjunct1, THEN mp])
       (simp add: is_regular_def)
  then show "wipe_dir ?fs [''tmp''] = (None, Dir [(''etc'', File ''e''), (''tmp'', Dir [])])"
    by simp
  let ?pre = "[(''f'', File ''1'')]"
  let ?post = "[(''g'', File ''2''), (''t'', Dir [])]"
  let ?sub = "[(''h'', File ''3'')]"
  let ?fs2 = "Dir [(''tmp'', Dir (?pre @ (''s'', Dir ?sub) # ?post))]"
  have "wipe_dir ?fs2 [''tmp''] = (None, put [''tmp''] (Dir ?post) ?fs2)"
    by (rule wipe_dir_first_subdirectory
          [where pre = ?pre and name = "''s''" and sub = ?sub and post = ?post,
           THEN conjunct2, THEN conjunct2, THEN mp])
       (simp add: is_regular_def isdir_def listdir_def os_remove_def isfile_def)
  then show "wipe_dir (Dir [(''tmp'', Dir [(''f'', File ''1''), (''s'', Dir [(''h'', File ''3'')]),
                                  (''g'', File ''2''), (''t'', Dir [])])]) [''tmp'']
     = (None, Dir [(''tmp'', Dir [(''g'', File ''2''), (''t'', Dir [])])])"
    by simp
qed

subsection \<open>Packets with no data\<close>

text \<open>
  C3. A packet whose data is \<open>None\<close> comes back from \<open>invoke\<close> as it went in, for an
  ArchiveExpander and for a FileExtractor of any class, and neither the file system nor
  the component has changed: nothing was wiped, expanded, deleted or extracted.
\<close>

theorem skip_packet_untouched:
  "data packet = None \<Longrightarrow>
   ae_invoke L expander packet fs = (Inr packet, expander, fs)
   \<and> fx_invoke L extractor packet w = (Inr packet, w)"
  by (simp add: ae_invoke_def fx_invoke_def)

theorem skip_packet_untouched_witness:
  "ae_invoke example_lib
      \<lparr>ae_class = ZipArchiveExpander, target_dir = ''out'', remove_input_file = True,
         clear_target_dir = True, input_archive_file = None\<rparr>
      (example_packet None) example_fs
     = (Inr (example_packet None),
        \<lparr>ae_class = ZipArchiveExpander, target_dir = ''out'', remove_input_file = True,
           clear_target_dir = True, input_archive_file = None\<rparr>,
        example_fs)
   \<and> fx_invoke example_lib
      \<lparr>fx_class = ZipFileExtractor, file_path = ''out/m.xml'', delete_file = True,
         buffer_size = 1024\<rparr>
      (example_packet None) \<lparr>files = example_fs, vsi_open = []\<rparr>
     = (Inr (example_packet None), \<lparr>files = example_fs, vsi_open = []\<rparr>)"
proof -
  have "data (example_packet None) = None" by (simp add: example_packet_def)
  then show ?thesis by (rule skip_packet_untouched)
qed

subsection \<open>after\_chain\_invoke\<close>

text \<open>
  C2 fails for a FileExtractor whose \<open>delete_file\<close> is false: the bare \<open>return\<close> hands back
  \<open>None\<close>, where the other path of the same method and ArchiveExpander return \<open>True\<close>.
\<close>

theorem fx_after_chain_invoke_returns_none:
  "fx_after_chain_invoke example_lib
      \<lparr>fx_class = FileExtractor, file_path = ''out/m.xml'', delete_file = False,
         buffer_size = 1024\<rparr>
      (Some (example_packet (Some (PStr ''in/a.zip''))))
      \<lparr>files = example_fs, vsi_open = []\<rparr>
     = (Inr RNone, \<lparr>files = example_fs, vsi_open = []\<rparr>)"
  by (simp add: fx_after_chain_invoke_def)

text \<open>Whenever ArchiveExpander's hook returns, it returns \<open>True\<close>.\<close>

lemma ae_after_chain_invoke_true:
  "ae_after_chain_invoke L self packet fs = (Inr r, fs') \<Longrightarrow> r = RBool True"
  by (auto simp: ae_after_chain_invoke_def split: sum.splits if_splits prod.splits option.splits)

text \<open>So does FileExtractor's when \<open>delete_file\<close> is set.\<close>

lemma fx_after_chain_invoke_true:
  "delete_file self \<Longrightarrow> fx_after_chain_invoke L self packet w = (Inr r, w') \<Longrightarrow> r = RBool True"
  by (auto simp: fx_after_chain_invoke_def split: prod.splits option.splits)


text \<open>The base class ignores the packet, and its hook deletes the file and returns.\<close>

lemma fx_base_after_chain_invoke_none_packet:
  "fx_class self = FileExtractor \<Longrightarrow> delete_file self \<Longrightarrow>
   \<exists>w'. fx_after_chain_invoke L self None w = (Inr (RBool True), w')"
  by (simp add: fx_after_chain_invoke_def fx_delete_target_file_def fx_output_path_def
      os_remove_def)

lemma fx_derived_after_chain_invoke_none_packet:
  "fx_class self \<noteq> FileExtractor \<Longrightarrow> delete_file self \<Longrightarrow>
   fx_after_chain_invoke L self None w = (Inl AttributeError, w)"
  by (cases "fx_class self")
    (simp_all add: fx_after_chain_invoke_def fx_delete_target_file_def fx_output_path_def)

subsection \<open>FileExtractor.invoke\<close>

lemma lookup_del_same: "p \<noteq> [] \<Longrightarrow> lookup p (del p fs) = None"
  by (induction p arbitrary: fs)
    (auto split: node.splits option.splits simp: update_conv' delete_conv')

lemma isdir_root_not_isfile: "isdir fs [] \<Longrightarrow> \<not> isfile fs []"
  by (cases fs) (simp_all add: isdir_def isfile_def)

lemma no_file_after_del:
  assumes "isdir fs []" and "isfile fs p"
  shows "\<not> isfile (del p fs) p"
proof (cases "p = []")
  case True
  with assms isdir_root_not_isfile show ?thesis by blast
next
  case False
  then show ?thesis by (simp add: isfile_lookup lookup_del_same)
qed

text \<open>What \<open>delete_target_file\<close> does once the output path is known.\<close>

lemma fx_delete_target_file_path:
  "fx_output_path L self packet = Inr out \<Longrightarrow>
   fx_delete_target_file L self packet w =
     (None, if isfile (files w) (path_of out)
            then w\<lparr>files := del (path_of out) (files w)\<rparr> else w)"
  by (simp add: fx_delete_target_file_def os_remove_def)

text \<open>
  C5. For a packet with data, on a file system whose root is a directory, \<open>invoke\<close>
  returns a packet exactly when the output path can be computed and the extraction, run
  after any file at the output path has been deleted, raises nothing. The packet returned
  is the one passed with its data replaced: by the output path when a regular file is
  there after the extraction, by \<open>None\<close> when none is.
\<close>

theorem fx_invoke_postcondition:
  "data packet \<noteq> None \<Longrightarrow> isdir (files w) [] \<Longrightarrow>
   fx_invoke L self packet w = (Inr packet', w') \<longleftrightarrow>
     (\<exists>out w1.
        fx_output_path L self (Some packet) = Inr out
        \<and> w1 = (if isfile (files w) (path_of out)
                then w\<lparr>files := del (path_of out) (files w)\<rparr> else w)
        \<and> \<not> isfile (files w1) (path_of out)
        \<and> fx_extract_file L self packet w1 = (None, w')
        \<and> packet' = packet\<lparr>data := (if isfile (files w') (path_of out)
                                      then Some (PStr out) else None)\<rparr>)"
proof -
  assume "data packet \<noteq> None" and root: "isdir (files w) []"
  then obtain payload where nonempty: "data packet = Some payload" by blast
  show ?thesis
  proof (cases "fx_output_path L self (Some packet)")
    case (Inl e)
    then show ?thesis using nonempty
      by (simp add: fx_invoke_def fx_delete_target_file_def)
  next
    case (Inr out)
    let ?w1 = "if isfile (files w) (path_of out)
               then w\<lparr>files := del (path_of out) (files w)\<rparr> else w"
    have gone: "\<not> isfile (files ?w1) (path_of out)"
      using root no_file_after_del[of "files w" "path_of out"] by simp
    have del: "fx_delete_target_file L self (Some packet) w = (None, ?w1)"
      using Inr by (rule fx_delete_target_file_path)
    obtain r w2 where ex: "fx_extract_file L self packet ?w1 = (r, w2)"
      by (cases "fx_extract_file L self packet ?w1")
    show ?thesis
    proof (cases r)
      case None
      have "fx_invoke L self packet w =
              (Inr (packet\<lparr>data := (if isfile (files w2) (path_of out)
                                      then Some (PStr out) else None)\<rparr>), w2)"
        using nonempty Inr ex None
        by (simp add: fx_invoke_def del Let_def del: if_split_asm)
      then show ?thesis using Inr ex None gone by auto
    next
      case (Some e)
      have "fx_invoke L self packet w = (Inl e, w2)"
        using nonempty ex Some by (simp add: fx_invoke_def del)
      then show ?thesis using Inr ex Some by auto
    qed
  qed
qed

theorem fx_invoke_postcondition_witness:
  "fx_invoke example_lib
      \<lparr>fx_class = ZipFileExtractor, file_path = ''out/%s'', delete_file = True,
         buffer_size = 2\<rparr>
      (example_packet (Some (PDict [(''file_path'', ''in/a.zip''), (''name'', ''m.xml'')])))
      \<lparr>files = example_fs, vsi_open = []\<rparr>
     = (Inr (example_packet (Some (PStr ''out/m.xml''))),
        \<lparr>files = Dir [(''in'', Dir [(''a.zip'', File ''PK'')]),
                      (''out'', Dir [(''old.xml'', File ''old''), (''m.xml'', File ''<a/>'')])],
           vsi_open = []\<rparr>)
   \<and> (\<exists>out w1.
        fx_output_path example_lib
            \<lparr>fx_class = ZipFileExtractor, file_path = ''out/%s'', delete_file = True,
               buffer_size = 2\<rparr>
            (Some (example_packet
               (Some (PDict [(''file_path'', ''in/a.zip''), (''name'', ''m.xml'')]))))
          = Inr out
        \<and> \<not> isfile (files w1) (path_of out)
        \<and> fx_extract_file example_lib
            \<lparr>fx_class = ZipFileExtractor, file_path = ''out/%s'', delete_file = True,
               buffer_size = 2\<rparr>
            (example_packet (Some (PDict [(''file_path'', ''in/a.zip''), (''name'', ''m.xml'')])))
            w1
          = (None,
             \<lparr>files = Dir [(''in'', Dir [(''a.zip'', File ''PK'')]),
                           (''out'', Dir [(''old.xml'', File ''old''),
                                          (''m.xml'', File ''<a/>'')])],
                vsi_open = []\<rparr>))"
proof -
  let ?x = "\<lparr>fx_class = ZipFileExtractor, file_path = ''out/%s'', delete_file = True,
               buffer_size = 2\<rparr>"
  let ?p = "example_packet (Some (PDict [(''file_path'', ''in/a.zip''), (''name'', ''m.xml'')]))"
  let ?w = "\<lparr>files = example_fs, vsi_open = []\<rparr>"
  let ?w' = "\<lparr>files = Dir [(''in'', Dir [(''a.zip'', File ''PK'')]),
                          (''out'', Dir [(''old.xml'', File ''old''),
                                         (''m.xml'', File ''<a/>'')])],
               vsi_open = []\<rparr>"
  have a: "data ?p \<noteq> None" by (simp add: example_packet_def)
  have b: "isdir (files ?w) []" by (simp add: isdir_def example_fs_def)
  have run: "fx_invoke example_lib ?x ?p ?w
               = (Inr (example_packet (Some (PStr ''out/m.xml''))), ?w')"
    by (simp add: fx_invoke_def fx_delete_target_file_def fx_output_path_def
        fx_extract_file_def zip_extract_file_def example_lib_def example_packet_def
        example_fs_def safe_filename_def in_class_def isfile_def os_remove_def
        write_file_def isdir_def parent_isdir_def path_of_def zf_read_def)
  from fx_invoke_postcondition[OF a b, THEN iffD1, OF run]
  have "\<exists>out w1. fx_output_path example_lib ?x (Some ?p) = Inr out
          \<and> \<not> isfile (files w1) (path_of out)
          \<and> fx_extract_file example_lib ?x ?p w1 = (None, ?w')"
    by blast
  with run show ?thesis by blast
qed

subsection \<open>ArchiveExpander.invoke\<close>

text \<open>
  The steps of \<open>invoke\<close>. For a packet with data, \<open>invoke\<close> returns a packet exactly when the
  output path can be formatted, the call of \<open>wipe_dir\<close> on it raises nothing, the expansion
  of the archive named by the packet's data into it raises nothing, and the path is a
  directory afterwards. The component has then recorded the packet's data as its input
  archive, and the packet returned is the one passed with its data replaced: by the output
  path when the directory lists an entry, by \<open>None\<close> when it lists none. What the call of
  \<open>wipe_dir\<close> leaves in the directory is another matter, settled below.
\<close>

lemma ae_invoke_postcondition:
  "data packet \<noteq> None \<Longrightarrow>
   ae_invoke L self packet fs = (Inr packet', self', fs') \<longleftrightarrow>
     (\<exists>out fs1 names.
        ae_output_path L self (Some packet) = Inr out
        \<and> wipe_dir fs (path_of out) = (None, fs1)
        \<and> self' = self\<lparr>input_archive_file := data packet\<rparr>
        \<and> ae_expand_archive L self' (data packet) out fs1 = Inr fs'
        \<and> listdir fs' (path_of out) = Inr names
        \<and> packet' = packet\<lparr>data := (if names = [] then None else Some (PStr out))\<rparr>)"
proof -
  assume "data packet \<noteq> None"
  then obtain payload where nonempty: "data packet = Some payload" by blast
  show ?thesis
  proof (cases "ae_output_path L self (Some packet)")
    case (Inl e)
    then show ?thesis using nonempty by (simp add: ae_invoke_def)
  next
    case out: (Inr out)
    obtain r fs1 where wipe: "wipe_dir fs (path_of out) = (r, fs1)"
      by (cases "wipe_dir fs (path_of out)")
    let ?self1 = "self\<lparr>input_archive_file := data packet\<rparr>"
    show ?thesis
    proof (cases r)
      case (Some e)
      then show ?thesis using nonempty out wipe by (simp add: ae_invoke_def)
    next
      case None
      show ?thesis
      proof (cases "ae_expand_archive L ?self1 (data packet) out fs1")
        case (Inl e)
        then show ?thesis using nonempty out wipe None
          by (auto simp: ae_invoke_def Let_def)
      next
        case expand: (Inr fs2)
        show ?thesis
        proof (cases "listdir fs2 (path_of out)")
          case (Inl e)
          then show ?thesis using nonempty out wipe None expand
            by (auto simp: ae_invoke_def Let_def)
        next
          case (Inr names)
          then show ?thesis using nonempty out wipe None expand
            by (auto simp: ae_invoke_def Let_def)
        qed
      qed
    qed
  qed
qed

lemma ae_invoke_postcondition_example:
  "ae_invoke example_lib
      \<lparr>ae_class = ZipArchiveExpander, target_dir = ''out'', remove_input_file = True,
         clear_target_dir = True, input_archive_file = None\<rparr>
      (example_packet (Some (PStr ''in/a.zip''))) example_fs
     = (Inr (example_packet (Some (PStr ''out''))),
        \<lparr>ae_class = ZipArchiveExpander, target_dir = ''out'', remove_input_file = True,
           clear_target_dir = True, input_archive_file = Some (PStr ''in/a.zip'')\<rparr>,
        Dir [(''in'', Dir [(''a.zip'', File ''PK'')]), (''out'', Dir [(''m.xml'', File ''<a/>'')])])
   \<and> ae_invoke example_lib
      \<lparr>ae_class = ZipArchiveExpander, target_dir = ''out'', remove_input_file = True,
         clear_target_dir = True, input_archive_file = None\<rparr>
      (example_packet (Some (PStr ''in/a.tar''))) example_fs
     = (Inr (example_packet None),
        \<lparr>ae_class = ZipArchiveExpander, target_dir = ''out'', remove_input_file = True,
           clear_target_dir = True, input_archive_file = Some (PStr ''in/a.tar'')\<rparr>,
        Dir [(''in'', Dir [(''a.zip'', File ''PK'')]), (''out'', Dir [])])"
proof (intro conjI)
  let ?x = "\<lparr>ae_class = ZipArchiveExpander, target_dir = ''out'', remove_input_file = True,
               clear_target_dir = True, input_archive_file = None\<rparr>"
  let ?wiped = "Dir [(''in'', Dir [(''a.zip'', File ''PK'')]), (''out'', Dir [])]"
  have wipe: "wipe_dir example_fs (path_of ''out'') = (None, ?wiped)"
    by (simp add: example_fs_def path_of_def isdir_def listdir_def os_remove_def isfile_def)
  have out: "ae_output_path example_lib ?x (Some (example_packet (Some (PStr s)))) = Inr ''out''"
    for s
    by (simp add: ae_output_path_def example_packet_def)
  show "ae_invoke example_lib ?x (example_packet (Some (PStr ''in/a.zip''))) example_fs
     = (Inr (example_packet (Some (PStr ''out''))),
        \<lparr>ae_class = ZipArchiveExpander, target_dir = ''out'', remove_input_file = True,
           clear_target_dir = True, input_archive_file = Some (PStr ''in/a.zip'')\<rparr>,
        Dir [(''in'', Dir [(''a.zip'', File ''PK'')]), (''out'', Dir [(''m.xml'', File ''<a/>'')])])"
    apply (rule ae_invoke_postcondition[THEN iffD2])
     apply (simp add: example_packet_def)
    apply (rule exI[of _ "''out''"], rule exI[of _ ?wiped], rule exI[of _ "[''m.xml'']"])
    apply (intro conjI)
         apply (rule out)
        apply (rule wipe)
       apply (simp add: example_packet_def)
      apply (simp add: ae_expand_archive_def example_packet_def example_lib_def lower_def
        lower_char_def endswith_def path_of_def isfile_def write_file_def isdir_def
        parent_isdir_def)
     apply (simp add: listdir_def path_of_def)
    apply (simp add: example_packet_def)
    done
  show "ae_invoke example_lib ?x (example_packet (Some (PStr ''in/a.tar''))) example_fs
     = (Inr (example_packet None),
        \<lparr>ae_class = ZipArchiveExpander, target_dir = ''out'', remove_input_file = True,
           clear_target_dir = True, input_archive_file = Some (PStr ''in/a.tar'')\<rparr>,
        Dir [(''in'', Dir [(''a.zip'', File ''PK'')]), (''out'', Dir [])])"
    apply (rule ae_invoke_postcondition[THEN iffD2])
     apply (simp add: example_packet_def)
    apply (rule exI[of _ "''out''"], rule exI[of _ ?wiped], rule exI[of _ "[]"])
    apply (intro conjI)
         apply (rule out)
        apply (rule wipe)
       apply (simp add: example_packet_def)
      apply (simp add: ae_expand_archive_def example_packet_def lower_def
        lower_char_def endswith_def)
     apply (simp add: listdir_def path_of_def)
    apply (simp add: example_packet_def)
    done
qed

text \<open>
  C6 fails in the code: \<open>invoke\<close> does not wipe the output directory. The target directory
  \<open>out\<close> holds an empty subdirectory \<open>s\<close> followed by a file \<open>stale.xml\<close> of an earlier run,
  and the packet names \<open>in/a.tar\<close>, which ZipArchiveExpander does not expand. The call of
  \<open>wipe_dir\<close> removes \<open>s\<close> and returns; \<open>stale.xml\<close> stays, nothing is expanded, the directory
  is not empty, and \<open>invoke\<close> hands on the path \<open>out\<close> instead of a packet with no data,
  against the source's own note that expanded files are in the target directory at that
  point. With a subdirectory \<open>a\<close> that holds a subdirectory \<open>b\<close> followed by a file \<open>c\<close>,
  \<open>invoke\<close> raises \<open>OSError\<close> before anything is expanded. Both come from the \<open>return\<close>
  inside the loop of \<open>wipe_dir\<close>.
\<close>

theorem ae_invoke_leaves_stale_entries:
  "ae_invoke example_lib
      \<lparr>ae_class = ZipArchiveExpander, target_dir = ''out'', remove_input_file = False,
         clear_target_dir = True, input_archive_file = None\<rparr>
      (example_packet (Some (PStr ''in/a.tar'')))
      (Dir [(''in'', Dir [(''a.zip'', File ''PK'')]),
            (''out'', Dir [(''s'', Dir []), (''stale.xml'', File ''old'')])])
     = (Inr (example_packet (Some (PStr ''out''))),
        \<lparr>ae_class = ZipArchiveExpander, target_dir = ''out'', remove_input_file = False,
           clear_target_dir = True, input_archive_file = Some (PStr ''in/a.tar'')\<rparr>,
        Dir [(''in'', Dir [(''a.zip'', File ''PK'')]),
             (''out'', Dir [(''stale.xml'', File ''old'')])])
   \<and> ae_invoke example_lib
      \<lparr>ae_class = ZipArchiveExpander, target_dir = ''out'', remove_input_file = False,
         clear_target_dir = True, input_archive_file = None\<rparr>
      (example_packet (Some (PStr ''in/a.zip'')))
      (Dir [(''in'', Dir [(''a.zip'', File ''PK'')]),
            (''out'', Dir [(''a'', Dir [(''b'', Dir []), (''c'', File ''x'')])])])
     = (Inl OSError,
        \<lparr>ae_class = ZipArchiveExpander, target_dir = ''out'', remove_input_file = False,
           clear_target_dir = True, input_archive_file = None\<rparr>,
        Dir [(''in'', Dir [(''a.zip'', File ''PK'')]),
             (''out'', Dir [(''a'', Dir [(''c'', File ''x'')])])])"
  by (simp add: ae_invoke_def ae_output_path_def ae_expand_archive_def example_packet_def
      example_lib_def path_of_def isdir_def listdir_def os_remove_def os_rmdir_def isfile_def
      lower_def lower_char_def endswith_def)

subsection \<open>VsiFileExtractor.extract\_file\<close>

text \<open>When \<open>VSIFOpenL\<close> has opened the file, the handle is open when the \<open>try\<close> block is
  left, whether the block raised or not.\<close>

lemma vsi_try_block_opened:
  "data packet = Some (PStr s) \<Longrightarrow> vsi_content L s = Some content \<Longrightarrow>
   vsi_open (fst (snd (vsi_try_block L self packet w))) = s # vsi_open w
   \<and> snd (snd (vsi_try_block L self packet w)) = Some s"
  by (simp add: vsi_try_block_def Let_def split: sum.splits)

text \<open>
  C7. \<open>extract_file\<close> raises exactly what its \<open>try\<close> block raised; the open handles are
  the same after \<open>extract_file\<close> as before it, whether it raised or not, a handle the block
  opened being closed by the \<open>finally\<close> clause; and an exception raised by the extraction
  leaves \<open>invoke\<close> as that exception.
\<close>

theorem vsi_extract_file_reraises_and_closes:
  "fst (vsi_extract_file L self packet w) = fst (vsi_try_block L self packet w)
   \<and> vsi_open (snd (vsi_extract_file L self packet w)) = vsi_open w
   \<and> files (snd (vsi_extract_file L self packet w))
       = files (fst (snd (vsi_try_block L self packet w)))
   \<and> (fx_class self = VsiFileExtractor \<and> data packet \<noteq> None
       \<and> fx_delete_target_file L self (Some packet) w = (None, w1)
       \<and> vsi_extract_file L self packet w1 = (Some e, w2)
      \<longrightarrow> fx_invoke L self packet w = (Inl e, w2))"
proof (intro conjI impI)
  obtain r w' vsi where blk: "vsi_try_block L self packet w = (r, w', vsi)"
    by (cases "vsi_try_block L self packet w")
  show "fst (vsi_extract_file L self packet w) = fst (vsi_try_block L self packet w)"
    using blk by (cases r) (simp_all add: vsi_extract_file_def Let_def)
  show "files (snd (vsi_extract_file L self packet w))
          = files (fst (snd (vsi_try_block L self packet w)))"
    using blk by (cases vsi) (simp_all add: vsi_extract_file_def Let_def)
  show "vsi_open (snd (vsi_extract_file L self packet w)) = vsi_open w"
  proof (cases "\<exists>s content. data packet = Some (PStr s) \<and> vsi_content L s = Some content")
    case True
    then obtain s content where "data packet = Some (PStr s)" "vsi_content L s = Some content"
      by blast
    then have "vsi_open w' = s # vsi_open w" and "vsi = Some s"
      using vsi_try_block_opened[of packet s L content self w] blk by simp_all
    then show ?thesis using blk by (simp add: vsi_extract_file_def Let_def)
  next
    case False
    then have "vsi_open w' = vsi_open w \<and> vsi = None"
      using blk by (auto simp: vsi_try_block_def split: sum.splits option.splits pdata.splits)
    then show ?thesis using blk by (simp add: vsi_extract_file_def Let_def)
  qed
next
  assume h: "fx_class self = VsiFileExtractor \<and> data packet \<noteq> None
       \<and> fx_delete_target_file L self (Some packet) w = (None, w1)
       \<and> vsi_extract_file L self packet w1 = (Some e, w2)"
  then obtain payload where "data packet = Some payload" by blast
  with h show "fx_invoke L self packet w = (Inl e, w2)"
    by (simp add: fx_invoke_def fx_extract_file_def)
qed

theorem vsi_extract_file_reraises_and_closes_witness:
  "vsi_try_block example_lib
      \<lparr>fx_class = VsiFileExtractor, file_path = ''nodir/%s'', delete_file = True,
         buffer_size = 2\<rparr>
      (example_packet (Some (PStr ''/vsizip/in/a.zip/m.xml'')))
      \<lparr>files = example_fs, vsi_open = [''other'']\<rparr>
     = (Some IOError,
        \<lparr>files = example_fs, vsi_open = [''/vsizip/in/a.zip/m.xml'', ''other'']\<rparr>,
        Some ''/vsizip/in/a.zip/m.xml'')
   \<and> vsi_extract_file example_lib
      \<lparr>fx_class = VsiFileExtractor, file_path = ''nodir/%s'', delete_file = True,
         buffer_size = 2\<rparr>
      (example_packet (Some (PStr ''/vsizip/in/a.zip/m.xml'')))
      \<lparr>files = example_fs, vsi_open = [''other'']\<rparr>
     = (Some IOError, \<lparr>files = example_fs, vsi_open = [''other'']\<rparr>)
   \<and> fx_invoke example_lib
      \<lparr>fx_class = VsiFileExtractor, file_path = ''nodir/%s'', delete_file = True,
         buffer_size = 2\<rparr>
      (example_packet (Some (PStr ''/vsizip/in/a.zip/m.xml'')))
      \<lparr>files = example_fs, vsi_open = [''other'']\<rparr>
     = (Inl IOError, \<lparr>files = example_fs, vsi_open = [''other'']\<rparr>)"
proof -
  let ?x = "\<lparr>fx_class = VsiFileExtractor, file_path = ''nodir/%s'', delete_file = True,
               buffer_size = 2\<rparr>"
  let ?p = "example_packet (Some (PStr ''/vsizip/in/a.zip/m.xml''))"
  let ?w = "\<lparr>files = example_fs, vsi_open = [''other'']\<rparr>"
  have out: "fx_output_path example_lib ?x (Some ?p) = Inr ''nodir/_vsizip_in_a.zip_m.xml''"
    by (simp add: fx_output_path_def example_packet_def example_lib_def safe_filename_def
        in_class_def)
  have nofile: "\<not> isfile example_fs (path_of ''nodir/_vsizip_in_a.zip_m.xml'')"
    by (simp add: isfile_def path_of_def example_fs_def)
  have blk: "vsi_try_block example_lib ?x ?p ?w
      = (Some IOError,
         \<lparr>files = example_fs, vsi_open = [''/vsizip/in/a.zip/m.xml'', ''other'']\<rparr>,
         Some ''/vsizip/in/a.zip/m.xml'')"
    by (simp add: vsi_try_block_def fx_output_path_def example_packet_def example_lib_def
        safe_filename_def in_class_def write_file_def isdir_def parent_isdir_def path_of_def
        example_fs_def Let_def)
  have ex: "vsi_extract_file example_lib ?x ?p ?w = (Some IOError, ?w)"
    by (simp add: vsi_extract_file_def blk)
  have del: "fx_delete_target_file example_lib ?x (Some ?p) ?w = (None, ?w)"
    by (simp add: fx_delete_target_file_def out nofile)
  have "data ?p \<noteq> None" by (simp add: example_packet_def)
  with ex del have "fx_invoke example_lib ?x ?p ?w = (Inl IOError, ?w)"
    using vsi_extract_file_reraises_and_closes[of example_lib ?x ?p ?w ?w IOError ?w]
    by simp
  with blk ex show ?thesis by simp
qed

subsection \<open>ETL.\_\_init\_\_\<close>

text \<open>
  C1 as stated fails: the file named does not exist, \<open>open\<close> raises \<open>IOError\<close> inside the
  \<open>try\<close> block, and the constructor returns a driver with an empty store. The same happens
  when the file is there and does not parse.
\<close>

theorem etl_init_swallows_counterexample:
  "fst (read_config example_etl_lib example_fs (Some ''missing.ini'') [''x'']) = Some IOError
   \<and> etl_init example_etl_lib example_fs (Some ''missing.ini'') [''x'']
       = Inr \<lparr>configdict = empty_config\<rparr>
   \<and> fst (read_config example_etl_lib example_fs (Some ''in/a.zip'') [])
       = Some (LibraryError ''ParsingError'')
   \<and> etl_init example_etl_lib example_fs (Some ''in/a.zip'') []
       = Inr \<lparr>configdict = empty_config\<rparr>"
  by (simp add: etl_init_def read_config_def example_fs_def path_of_def example_etl_lib_def)

lemma etl_run_empty_config:
  "etl_run L C \<lparr>configdict = empty_config\<rparr> w = (Some NoSectionError, w)"
  by (simp add: etl_run_def config_get_def empty_config_def)

text \<open>
  C1, amended. The constructor never raises: it returns a driver whose store is what the
  \<open>try\<close> block left, whatever the block raised. When no file is named, or the file named
  is no regular file, the store is empty; when the file is read and its parse fails,
  the store is what the parser had stored. The failure to read shows only later: \<open>run\<close>
  on the empty store raises \<open>NoSectionError\<close>.
\<close>

theorem etl_init_never_raises:
  "etl_init L fs config_file args = Inr \<lparr>configdict = snd (read_config L fs config_file args)\<rparr>
   \<and> ((config_file = None \<or> (\<exists>name. config_file = Some name \<and> \<not> isfile fs (path_of name)))
        \<longrightarrow> etl_init L fs config_file args = Inr \<lparr>configdict = empty_config\<rparr>)
   \<and> (config_file = Some name \<and> lookup (path_of name) fs = Some (File text) \<and> args = []
        \<and> parse_config L text = (Some e, c)
        \<longrightarrow> etl_init L fs config_file args = Inr \<lparr>configdict = c\<rparr>)
   \<and> etl_run L C \<lparr>configdict = empty_config\<rparr> w = (Some NoSectionError, w)"
proof (intro conjI impI)
  show "etl_init L fs config_file args
          = Inr \<lparr>configdict = snd (read_config L fs config_file args)\<rparr>"
    by (cases "read_config L fs config_file args")
      (simp add: etl_init_def split: option.splits)
  then show "etl_init L fs config_file args = Inr \<lparr>configdict = empty_config\<rparr>"
    if "config_file = None \<or> (\<exists>name. config_file = Some name \<and> \<not> isfile fs (path_of name))"
    using that
    by (auto simp: read_config_def isfile_def split: option.splits node.splits)
  show "etl_init L fs config_file args = Inr \<lparr>configdict = c\<rparr>"
    if "config_file = Some name \<and> lookup (path_of name) fs = Some (File text) \<and> args = []
        \<and> parse_config L text = (Some e, c)"
    using that by (simp add: etl_init_def read_config_def)
  show "etl_run L C \<lparr>configdict = empty_config\<rparr> w = (Some NoSectionError, w)"
    by (rule etl_run_empty_config)
qed

theorem etl_init_never_raises_witness:
  "etl_init example_etl_lib example_fs (Some ''missing.ini'') []
     = Inr \<lparr>configdict = empty_config\<rparr>
   \<and> etl_init example_etl_lib example_fs (Some ''in/a.zip'') []
     = Inr \<lparr>configdict = empty_config\<rparr>"
proof
  have "\<not> isfile example_fs (path_of ''missing.ini'')"
    by (simp add: isfile_def example_fs_def path_of_def)
  then have "Some ''missing.ini'' = None
      \<or> (\<exists>name. Some ''missing.ini'' = Some name \<and> \<not> isfile example_fs (path_of name))"
    by simp
  then show "etl_init example_etl_lib example_fs (Some ''missing.ini'') []
               = Inr \<lparr>configdict = empty_config\<rparr>"
    by (rule etl_init_never_raises[THEN conjunct2, THEN conjunct1, THEN mp])
  have "Some ''in/a.zip'' = Some ''in/a.zip''
      \<and> lookup (path_of ''in/a.zip'') example_fs = Some (File ''PK'') \<and> [] = ([]::string list)
      \<and> parse_config example_etl_lib ''PK''
          = (Some (LibraryError ''ParsingError''), empty_config)"
    by (simp add: example_fs_def path_of_def example_etl_lib_def)
  then show "etl_init example_etl_lib example_fs (Some ''in/a.zip'') []
               = Inr \<lparr>configdict = empty_config\<rparr>"
    by (rule etl_init_never_raises[THEN conjunct2, THEN conjunct2, THEN conjunct1, THEN mp])
qed

subsection \<open>ETL.run\<close>






subsection \<open>Further facts about the loops\<close>

text \<open>With a positive buffer size both copy loops write the whole content; with buffer size
  zero ZipFileExtractor writes nothing.\<close>

lemma zip_copy_all: "0 < n \<Longrightarrow> zip_copy n rest written = written @ rest"
proof (induction n rest written rule: zip_copy.induct)
  case (1 n rest written)
  show ?case
  proof (cases "zf_read n rest = []")
    case True
    with "1.prems" have "rest = []" by (simp add: zf_read_def)
    with True show ?thesis by (subst zip_copy.simps) simp
  next
    case False
    from "1.IH"[OF refl False "1.prems"]
    have "zip_copy n (drop (length (zf_read n rest)) rest) (written @ zf_read n rest)
            = (written @ zf_read n rest) @ drop (length (zf_read n rest)) rest" .
    moreover have "zf_read n rest @ drop (length (zf_read n rest)) rest = rest"
      using "1.prems" by (simp add: zf_read_def min_def)
    ultimately show ?thesis using False by (subst zip_copy.simps) (simp add: Let_def)
  qed
qed

lemma zip_copy_zero: "zip_copy 0 rest written = written"
  by (subst zip_copy.simps) (simp add: zf_read_def)

lemma vsi_copy_all: "0 < n \<Longrightarrow> vsi_copy n rest written = written @ rest"
proof (induction n rest written rule: vsi_copy.induct)
  case (1 n rest written)
  show ?case
  proof (cases "vsi_read n rest = []")
    case True
    with "1.prems" have "rest = []" by (simp add: vsi_read_def)
    with True show ?thesis by (subst vsi_copy.simps) simp
  next
    case False
    from "1.IH"[OF refl False "1.prems"]
    have "vsi_copy n (drop (length (vsi_read n rest)) rest) (written @ vsi_read n rest)
            = (written @ vsi_read n rest) @ drop (length (vsi_read n rest)) rest" .
    moreover have "vsi_read n rest @ drop (length (vsi_read n rest)) rest = rest"
      by (simp add: vsi_read_def min_def)
    ultimately show ?thesis using False by (subst vsi_copy.simps) (simp add: Let_def)
  qed
qed

text \<open>When the wipe of the first subdirectory leaves entries in it, \<open>os.rmdir\<close> raises and
  the subdirectory stays, with what was listed after it.\<close>

lemma wipe_dir_first_subdirectory_left:
  assumes "lookup d fs = Some (Dir (pre @ (name, Dir sub) # post))"
    and "wf_node (Dir (pre @ (name, Dir sub) # post))"
    and "list_all (\<lambda>e. is_regular (snd e)) pre"
    and "wipe_dir (Dir sub) [] = (None, Dir sub')" and "sub' \<noteq> []"
  shows "wipe_dir fs d = (Some OSError, put d (Dir ((name, Dir sub') # post)) fs)"
proof -
  have "wf_node (Dir sub)" using assms(2) wf_node_entry[of pre name "Dir sub" post] by blast
  with assms(4) have sub: "wipe_entries sub = (None, sub')"
    using wipe_dir_root[of sub] by (simp split: prod.splits)
  have "wipe_entries (pre @ (name, Dir sub) # post) = wipe_entries ((name, Dir sub) # post)"
    using assms(3) by (rule wipe_entries_skip_regular)
  with sub assms(5) have "wipe_entries (pre @ (name, Dir sub) # post)
      = (Some OSError, (name, Dir sub') # post)" by simp
  then show ?thesis using wipe_dir_refines[OF assms(1,2)] by simp
qed

end
